theory Spec2Isabelle
  imports Complex_Main "HOL-Library.Sublist"
begin

section \<open>JavaScript values used by \<open>src/utils/parser.js\<close>\<close>

text \<open>
  The module \<open>parser.js\<close> exports one function, \<open>parse(gltf, options)\<close>, whose body
  declares the helpers \<open>uniqueName\<close>, \<open>sanitizeName\<close>, \<open>rNbr\<close>, \<open>rDeg\<close>, \<open>printTypes\<close>,
  \<open>getType\<close>, \<open>getTresType\<close>, \<open>handleProps\<close>, \<open>getInfo\<close>, \<open>equalOrNegated\<close>, \<open>prune\<close>,
  \<open>print\<close> and \<open>parseExtras\<close> as closures. Each of them is embedded below under its own
  name; what a closure captures (the options, the duplicate table, the animation flag,
  the imported \<open>isVarName\<close>) is passed in a context record.

  Exceptions are values: a function that can throw returns \<open>js_error + 'a\<close>.
  JavaScript numbers are modelled by rationals (exact arithmetic in place of IEEE
  doubles); strings are lists of characters.
\<close>

datatype js_error = RangeError | TypeError

subsection \<open>Strings\<close>

definition isUpperChar :: "char \<Rightarrow> bool" where
  "isUpperChar c = ((65::nat) \<le> of_char c \<and> of_char c \<le> (90::nat))"

definition isLowerChar :: "char \<Rightarrow> bool" where
  "isLowerChar c = ((97::nat) \<le> of_char c \<and> of_char c \<le> (122::nat))"

definition isDigitChar :: "char \<Rightarrow> bool" where
  "isDigitChar c = ((48::nat) \<le> of_char c \<and> of_char c \<le> (57::nat))"

definition isLetter :: "char \<Rightarrow> bool" where
  "isLetter c = (isLowerChar c \<or> isUpperChar c)"

definition toUpperChar :: "char \<Rightarrow> char" where
  "toUpperChar c = (if isLowerChar c then char_of (of_char c - (32::nat)) else c)"

definition toLowerChar :: "char \<Rightarrow> char" where
  "toLowerChar c = (if isUpperChar c then char_of (of_char c + (32::nat)) else c)"

text \<open>\<open>s.charAt(0).toUpperCase() + s.slice(1)\<close> and its lower-case twin.\<close>

fun capitalize :: "string \<Rightarrow> string" where
  "capitalize [] = []"
| "capitalize (c # cs) = toUpperChar c # cs"

fun uncapitalize :: "string \<Rightarrow> string" where
  "uncapitalize [] = []"
| "uncapitalize (c # cs) = toLowerChar c # cs"

text \<open>Decimal rendering of a non-negative integer, as string concatenation
  \<open>attempt + index\<close> produces it.\<close>

definition digitChar :: "nat \<Rightarrow> char" where
  "digitChar d = char_of (48 + d)"

fun showNat :: "nat \<Rightarrow> string" where
  "showNat n = (if n < 10 then [digitChar n] else showNat (n div 10) @ [digitChar (n mod 10)])"

declare showNat.simps [simp del]

text \<open>The inverse reading of a digit string, used to show that \<open>showNat\<close> is injective.\<close>

definition readNat :: "string \<Rightarrow> nat" where
  "readNat s = foldl (\<lambda>acc c. 10 * acc + (of_char c - 48)) 0 s"

lemma of_char_digitChar: "d < 10 \<Longrightarrow> of_char (digitChar d) = 48 + d"
  by (simp add: digitChar_def)

lemma readNat_snoc: "readNat (s @ [c]) = 10 * readNat s + (of_char c - 48)"
  by (simp add: readNat_def)

lemma readNat_showNat: "readNat (showNat n) = n"
proof (induction n rule: showNat.induct)
  case (1 n)
  show ?case
  proof (cases "n < 10")
    case True
    then show ?thesis
      by (subst showNat.simps) (simp add: readNat_def of_char_digitChar)
  next
    case False
    have "readNat (showNat n) = 10 * readNat (showNat (n div 10)) + (of_char (digitChar (n mod 10)) - 48)"
      using False by (subst showNat.simps) (simp add: readNat_snoc)
    also have "\<dots> = 10 * (n div 10) + n mod 10"
      using 1 False by (simp add: of_char_digitChar)
    finally show ?thesis by simp
  qed
qed

lemma showNat_inject: "showNat m = showNat n \<Longrightarrow> m = n"
  by (metis readNat_showNat)

lemma showNat_nonempty: "showNat n \<noteq> []"
  by (subst showNat.simps) simp

section \<open>Duplicate tables (lines 20--72)\<close>

subsection \<open>Scene objects\<close>

record vec3 =
  vx :: rat
  vy :: rat
  vz :: rat

text \<open>A material object: \<open>mat_id\<close> stands for its object identity, \<open>mat_name\<close> and
  \<open>mat_type\<close> for \<open>material.name\<close> and \<open>material.type\<close>.\<close>

record material3 =
  mat_id :: nat
  mat_name :: string
  mat_type :: string

text \<open>
  The fields of a three.js \<open>Object3D\<close> that the module reads, under the names the source
  uses. \<open>geometry\<close> holds \<open>geometry.uuid\<close> when the object has a geometry; \<open>removed\<close> is the
  transient \<open>__removed\<close> mark; an optional numeric field is \<open>None\<close> when the property is
  \<open>undefined\<close>; a boolean presence field says whether the property is a truthy object;
  \<open>color\<close> holds \<open>color.getHexString()\<close>, \<open>userData\<close> holds \<open>JSON.stringify(userData)\<close>
  when \<open>userData\<close> has at least one key, \<open>target\<close> names the light target object.
\<close>

record object3d =
  name :: string
  type :: string
  isMesh :: bool
  isBone :: bool
  isInstancedMesh :: bool
  geometry :: "string option"
  material :: "material3 option"
  position :: vec3
  rotation :: vec3
  scale :: vec3
  removed :: bool
  zoom :: rat
  far :: rat
  near :: rat
  fov :: rat
  instanceMatrix :: bool
  instanceColor :: bool
  skeleton :: bool
  visible :: bool
  castShadow :: bool
  receiveShadow :: bool
  morphTargetDictionary :: bool
  morphTargetInfluences :: bool
  intensity :: "rat option"
  angle :: "rat option"
  penumbra :: "rat option"
  decay :: "rat option"
  distance :: "rat option"
  up :: "vec3 option"
  color :: "string option"
  userData :: "string option"
  target :: "nat option"
  count :: nat

text \<open>The options object. \<open>opt_precision\<close> is \<open>None\<close> when \<open>options.precision\<close> is unset.\<close>

record options =
  opt_instance :: bool
  opt_instanceall :: bool
  opt_keepgroups :: bool
  opt_bones :: bool
  opt_keepnames :: bool
  opt_shadows :: bool
  opt_meta :: bool
  opt_debug :: bool
  opt_precision :: "int option"
  opt_header :: "string option"
  opt_size :: "string option"

text \<open>An entry of \<open>duplicates.geometries\<close>: \<open>{count, name, node}\<close>.\<close>

record duplicate =
  dup_count :: nat
  dup_name :: string
  dup_node :: string

text \<open>
  \<open>duplicates.geometries\<close> is an object used as a dictionary from keys to entries. It is
  modelled by an association list in insertion order with one pair per key. The order
  of the entries is never observable: the table is read by key, by \<open>find\<close> over its values
  for the existence of a name, and for the number of its keys.
\<close>

type_synonym geometries = "(string \<times> duplicate) list"

subsection \<open>\<open>sanitizeName\<close> (lines 74--76)\<close>

text \<open>\<open>isVarName\<close> is imported from \<open>./isVarName.js\<close> and is a parameter here.\<close>

definition sanitizeName :: "(string \<Rightarrow> bool) \<Rightarrow> string \<Rightarrow> string" where
  "sanitizeName isVarName nm =
     (if isVarName nm then ''.'' @ nm else ''['' @ [CHR 0x27] @ nm @ [CHR 0x27] @ '']'')"

subsection \<open>\<open>uniqueName\<close> (lines 27--31)\<close>

text \<open>
  \<open>uniqueName(attempt, index = 0)\<close> reads the names of the current table; the list
  \<open>names\<close> stands for \<open>Object.values(duplicates.geometries).map(({name}) => name)\<close>.
\<close>

definition newAttempt :: "string \<Rightarrow> nat \<Rightarrow> string" where
  "newAttempt attempt index = (if index > 0 then attempt @ showNat index else attempt)"

lemma newAttempt_inject: "newAttempt a i = newAttempt a j \<Longrightarrow> i = j"
  by (auto simp: newAttempt_def showNat_nonempty dest: showNat_inject split: if_splits)

lemma finite_attempts: "finite {j. newAttempt a j \<in> set names}"
proof -
  have "inj (newAttempt a)"
    by (rule injI) (rule newAttempt_inject)
  then have "finite (newAttempt a -` set names)"
    by (intro finite_vimageI) simp_all
  then show ?thesis by (simp add: vimage_def)
qed

function uniqueName :: "string list \<Rightarrow> string \<Rightarrow> nat \<Rightarrow> string" where
  "uniqueName names attempt index =
     (if newAttempt attempt index \<notin> set names then newAttempt attempt index
      else uniqueName names attempt (index + 1))"
  by pat_completeness auto
termination
proof (relation "measure (\<lambda>(names, a, i). card {j. i \<le> j \<and> newAttempt a j \<in> set names})")
  show "wf (measure (\<lambda>(names, a, i). card {j. i \<le> j \<and> newAttempt a j \<in> set names}))"
    by simp
next
  fix names :: "string list" and attempt :: string and index :: nat
  assume used: "\<not> newAttempt attempt index \<notin> set names"
  let ?S = "\<lambda>i. {j. i \<le> j \<and> newAttempt attempt j \<in> set names}"
  have fin: "finite (?S index)"
    by (rule finite_subset [OF _ finite_attempts [of attempt names]]) auto
  have "index \<in> ?S index" and "index \<notin> ?S (index + 1)" and "?S (index + 1) \<subseteq> ?S index"
    using used by auto
  then have "?S (index + 1) \<subset> ?S index"
    by blast
  then have "card (?S (index + 1)) < card (?S index)"
    using fin by (rule psubset_card_mono [rotated])
  then show "((names, attempt, index + 1), (names, attempt, index))
      \<in> measure (\<lambda>(names, a, i). card {j. i \<le> j \<and> newAttempt a j \<in> set names})"
    by simp
qed

declare uniqueName.simps [simp del]

subsection \<open>The two table-building traversals (lines 33--70)\<close>

text \<open>Line 48: \<open>child.geometry.uuid + child.material?.name ?? ''\<close>. The operator \<open>+\<close>
  binds tighter than \<open>??\<close>, so the sum is formed first; with no material the right
  operand of \<open>+\<close> is \<open>undefined\<close>, which string concatenation renders as the text
  \<open>undefined\<close>; the sum is a string, never nullish, so the \<open>?? ''\<close> never applies.\<close>

definition geometryKey :: "string \<Rightarrow> object3d \<Rightarrow> string" where
  "geometryKey uuid child =
     uuid @ (case material child of None \<Rightarrow> ''undefined'' | Some m \<Rightarrow> mat_name m)"

text \<open>Lines 50--51: \<open>(child.name || 'Part').replace(/[^a-zA-Z]/g, '')\<close>, first letter
  upper-cased.\<close>

definition partName :: "object3d \<Rightarrow> string" where
  "partName child =
     capitalize (filter isLetter (if name child = [] then ''Part'' else name child))"

definition addGeometry :: "(string \<Rightarrow> bool) \<Rightarrow> geometries \<Rightarrow> object3d \<Rightarrow> geometries" where
  "addGeometry isVarName tbl child =
     (if isMesh child then
        (case geometry child of
           None \<Rightarrow> tbl
         | Some uuid \<Rightarrow>
             (let key = geometryKey uuid child in
              case map_of tbl key of
                None \<Rightarrow>
                  tbl @ [(key, \<lparr>dup_count = 1,
                                 dup_name = uniqueName (map (dup_name \<circ> snd) tbl) (partName child) 0,
                                 dup_node = ''nodes'' @ sanitizeName isVarName (name child)\<rparr>)]
              | Some d \<Rightarrow>
                  map (\<lambda>(k, e). if k = key then (k, e\<lparr>dup_count := dup_count e + 1\<rparr>) else (k, e)) tbl))
      else tbl)"

text \<open>The traversal visits the objects in pre-order; \<open>objs\<close> is that list.\<close>

definition collectGeometries :: "(string \<Rightarrow> bool) \<Rightarrow> object3d list \<Rightarrow> geometries" where
  "collectGeometries isVarName objs = foldl (addGeometry isVarName) [] objs"

text \<open>Lines 64--70: without \<open>instanceall\<close>, entries counted once are deleted.\<close>

definition pruneGeometries :: "options \<Rightarrow> geometries \<Rightarrow> geometries" where
  "pruneGeometries opts tbl =
     (if \<not> opt_instanceall opts then filter (\<lambda>(k, d). dup_count d \<noteq> 1) tbl else tbl)"

definition duplicateGeometries :: "(string \<Rightarrow> bool) \<Rightarrow> options \<Rightarrow> object3d list \<Rightarrow> geometries" where
  "duplicateGeometries isVarName opts objs = pruneGeometries opts (collectGeometries isVarName objs)"

section \<open>Number formatting (lines 78--93)\<close>

text \<open>
  \<open>Math.PI\<close> is the double \<open>0x400921FB54442D18\<close>, the rational below. \<open>Math.round\<close>
  rounds to the nearest integer, a tie towards \<open>+\<infinity>\<close>.
\<close>

definition Math_PI :: rat where
  "Math_PI = 884279719003555 / 281474976710656"

definition Math_round :: "rat \<Rightarrow> int" where
  "Math_round v = floor (v + 1 / 2)"

text \<open>\<open>Math.round(options.precision || 2)\<close>: an unset or zero precision is falsy.\<close>

definition precisionOf :: "options \<Rightarrow> int" where
  "precisionOf opts = (case opt_precision opts of None \<Rightarrow> 2 | Some n \<Rightarrow> if n = 0 then 2 else n)"

text \<open>
  \<open>parseFloat(number.toFixed(d))\<close>: \<open>toFixed\<close> throws a \<open>RangeError\<close> unless
  \<open>0 \<le> d \<le> 100\<close>; otherwise it picks the integer \<open>n\<close> with \<open>n / 10^d\<close> nearest to the
  magnitude, the larger one at a tie, and keeps the sign. The value read back is
  \<open>n / 10^d\<close> (a negative zero reads as zero).
\<close>

definition toFixedValue :: "nat \<Rightarrow> rat \<Rightarrow> rat" where
  "toFixedValue d v = sgn v * of_int (floor (\<bar>v\<bar> * 10 ^ d + 1 / 2)) / 10 ^ d"

definition toFixedOk :: "options \<Rightarrow> bool" where
  "toFixedOk opts = (0 \<le> precisionOf opts \<and> precisionOf opts \<le> 100)"

definition rNbr :: "options \<Rightarrow> rat \<Rightarrow> js_error + rat" where
  "rNbr opts number =
     (if toFixedOk opts then Inr (toFixedValue (nat (precisionOf opts)) number)
      else Inl RangeError)"

text \<open>
  A number interpolated into a template string is rendered in positional decimal
  notation without trailing zeros (the form JavaScript uses for magnitudes from
  \<open>10\<^sup>-\<^sup>6\<close> up to \<open>10\<^sup>2\<^sup>1\<close>). A value produced by \<open>rNbr\<close> has at most 100 fractional
  digits, which bounds the digit loop.
\<close>

fun fractionDigits :: "nat \<Rightarrow> rat \<Rightarrow> string" where
  "fractionDigits 0 r = []"
| "fractionDigits (Suc k) r =
     (if r = 0 then []
      else digitChar (nat (floor (r * 10))) # fractionDigits k (r * 10 - of_int (floor (r * 10))))"

definition numberToString :: "rat \<Rightarrow> string" where
  "numberToString v =
     (let n = floor \<bar>v\<bar>; f = \<bar>v\<bar> - of_int n
      in (if v < 0 then ''-'' else []) @ showNat (nat n)
         @ (if f = 0 then [] else ''.'' @ fractionDigits 100 f))"

text \<open>The values compared in the two \<open>for\<close> loops of \<open>rDeg\<close>:
  \<open>Math.round(parseFloat(Math.PI / i) * 100000)\<close> and
  \<open>Math.round(parseFloat(Math.PI * i) * 100000)\<close>.\<close>

definition piDiv :: "nat \<Rightarrow> int" where
  "piDiv i = Math_round (Math_PI / of_nat i * 100000)"

definition piMul :: "nat \<Rightarrow> int" where
  "piMul i = Math_round (Math_PI * of_nat i * 100000)"

lemma piDiv_table:
  "map piDiv [1, 2, 3, 4, 5, 6, 7, 8, 9, 10] =
     [314159, 157080, 104720, 78540, 62832, 52360, 44880, 39270, 34907, 31416]"
  by code_simp

lemma piMul_table:
  "map piMul [1, 2, 3, 4, 5, 6, 7, 8, 9, 10] =
     [314159, 628319, 942478, 1256637, 1570796, 1884956, 2199115, 2513274, 2827433, 3141593]"
  by code_simp

lemma piDiv_vals:
  "piDiv 1 = 314159" "piDiv 2 = 157080" "piDiv 3 = 104720" "piDiv 4 = 78540" "piDiv 5 = 62832"
  "piDiv 6 = 52360" "piDiv 7 = 44880" "piDiv 8 = 39270" "piDiv 9 = 34907" "piDiv 10 = 31416"
  using piDiv_table by simp_all

lemma piMul_vals:
  "piMul 1 = 314159" "piMul 2 = 628319" "piMul 3 = 942478" "piMul 4 = 1256637"
  "piMul 5 = 1570796" "piMul 6 = 1884956" "piMul 7 = 2199115" "piMul 8 = 2513274"
  "piMul 9 = 2827433" "piMul 10 = 3141593"
  using piMul_table by simp_all

text \<open>The same values as a table, so that running \<open>rDeg\<close> does not redo the divisions.\<close>

lemma piDiv_code [code]:
  "piDiv i =
     (if i = 1 then 314159 else if i = 2 then 157080 else if i = 3 then 104720
      else if i = 4 then 78540 else if i = 5 then 62832 else if i = 6 then 52360
      else if i = 7 then 44880 else if i = 8 then 39270 else if i = 9 then 34907
      else if i = 10 then 31416 else Math_round (Math_PI / of_nat i * 100000))"
  using piDiv_vals by (simp add: piDiv_def)

lemma piMul_code [code]:
  "piMul i =
     (if i = 1 then 314159 else if i = 2 then 628319 else if i = 3 then 942478
      else if i = 4 then 1256637 else if i = 5 then 1570796 else if i = 6 then 1884956
      else if i = 7 then 2199115 else if i = 8 then 2513274 else if i = 9 then 2827433
      else if i = 10 then 3141593 else Math_round (Math_PI * of_nat i * 100000))"
  using piMul_vals by (simp add: piMul_def)

text \<open>The two loops return at the first \<open>i\<close> from 1 to 10 that matches.\<close>

definition rDeg :: "options \<Rightarrow> rat \<Rightarrow> js_error + string" where
  "rDeg opts number =
     (let a = \<bar>Math_round (number * 100000)\<bar>
      in case find (\<lambda>i. a = piDiv i) [1..<11] of
           Some i \<Rightarrow>
             Inr ((if number < 0 then ''-'' else []) @ ''Math.PI''
                  @ (if i > 1 then '' / '' @ showNat i else []))
         | None \<Rightarrow>
             (case find (\<lambda>i. a = piMul i) [1..<11] of
                Some i \<Rightarrow>
                  Inr ((if number < 0 then ''-'' else []) @ ''Math.PI''
                       @ (if i > 1 then '' * '' @ showNat i else []))
              | None \<Rightarrow> map_sum id numberToString (rNbr opts number)))"


section \<open>Sample objects and options\<close>

text \<open>The field values of a freshly constructed \<open>THREE.Object3D\<close>, and the objects the
  loader builds from it.\<close>

definition vec :: "rat \<Rightarrow> rat \<Rightarrow> rat \<Rightarrow> vec3" where
  "vec a b c = \<lparr>vx = a, vy = b, vz = c\<rparr>"

definition Object3D :: object3d where
  "Object3D = \<lparr>name = [], type = ''Object3D'', isMesh = False, isBone = False,
     isInstancedMesh = False, geometry = None, material = None,
     position = vec 0 0 0, rotation = vec 0 0 0, scale = vec 1 1 1, removed = False,
     zoom = 1, far = 2000, near = 1 / 10, fov = 50,
     instanceMatrix = False, instanceColor = False, skeleton = False, visible = True,
     castShadow = False, receiveShadow = False, morphTargetDictionary = False,
     morphTargetInfluences = False, intensity = None, angle = None, penumbra = None,
     decay = None, distance = None, up = Some (vec 0 1 0), color = None, userData = None,
     target = None, count = 0\<rparr>"

definition Group :: "string \<Rightarrow> object3d" where
  "Group nm = Object3D\<lparr>name := nm, type := ''Group''\<rparr>"

definition Bone :: "string \<Rightarrow> object3d" where
  "Bone nm = Object3D\<lparr>name := nm, type := ''Bone'', isBone := True\<rparr>"

definition Mesh :: "string \<Rightarrow> string \<Rightarrow> material3 option \<Rightarrow> object3d" where
  "Mesh nm uuid mat =
     Object3D\<lparr>name := nm, type := ''Mesh'', isMesh := True, geometry := Some uuid, material := mat\<rparr>"

definition PointLight :: "string \<Rightarrow> object3d" where
  "PointLight nm =
     Object3D\<lparr>name := nm, type := ''PointLight'', color := Some ''ffffff'',
       intensity := Some 1, distance := Some 0, decay := Some 2\<rparr>"

text \<open>No option set: the default configuration.\<close>

definition defaultOptions :: options where
  "defaultOptions = \<lparr>opt_instance = False, opt_instanceall = False, opt_keepgroups = False,
     opt_bones = False, opt_keepnames = False, opt_shadows = False, opt_meta = False,
     opt_debug = False, opt_precision = None, opt_header = None, opt_size = None\<rparr>"

text \<open>Modelled from the spec: \<open>isVarName.js\<close> is not among the sources. The spec's
  \<open>isBareIdentifier\<close> is true iff the string can be used as a bare identifier; this
  stand-in accepts a non-empty string of letters, digits, \<open>_\<close> and \<open>$\<close> that does not
  start with a digit. It is only used to run the functions on sample inputs.\<close>

definition isIdentChar :: "char \<Rightarrow> bool" where
  "isIdentChar c = (isLetter c \<or> isDigitChar c \<or> c = CHR ''_'' \<or> c = CHR ''$'')"

definition isVarName0 :: "string \<Rightarrow> bool" where
  "isVarName0 s = (case s of [] \<Rightarrow> False | c # cs \<Rightarrow> \<not> isDigitChar c \<and> list_all isIdentChar s)"

section \<open>The scene graph and the closure context\<close>

text \<open>
  Objects have identity and are mutated in place, so the graph is a tree of object
  identities over a store that maps an identity to the object's fields. \<open>Node i cs\<close> is
  the object \<open>i\<close> with the \<open>children\<close> array \<open>cs\<close>. The compile recursion reads the shape and
  writes only fields; the shape changes in the flattening and re-parenting passes.
\<close>

datatype tree = Node (ident: nat) (children: "tree list")

type_synonym store = "nat \<Rightarrow> object3d"

text \<open>\<open>Object3D.traverse\<close>: the object first, then each child's traversal in order.\<close>

fun traverse :: "tree \<Rightarrow> nat list" where
  "traverse (Node i cs) = i # concat (map traverse cs)"

text \<open>What the closures declared inside \<open>parse\<close> capture.\<close>

record closure =
  ctx_isVarName :: "string \<Rightarrow> bool"
  ctx_options :: options
  ctx_geometries :: geometries
  ctx_animated :: bool

definition dq :: string where
  "dq = [CHR 0x22]"

definition sq :: string where
  "sq = [CHR 0x27]"

definition nl :: string where
  "nl = [CHR 0x0A]"

text \<open>An attribute \<open>key="value" \<close> with its trailing space, as the template strings of
  \<open>handleProps\<close> and \<open>print\<close> write it.\<close>

definition attr :: "string \<Rightarrow> string \<Rightarrow> string" where
  "attr k v = k @ ''='' @ dq @ v @ dq @ '' ''"

section \<open>\<open>getType\<close>, \<open>getTresType\<close>, \<open>getInfo\<close> (lines 127--139, 219--230)\<close>

definition getType :: "object3d \<Rightarrow> string" where
  "getType obj =
     (let t = uncapitalize (type obj)
      in if t = ''object3D'' then ''group''
         else if t = ''perspectiveCamera'' then ''TresPerspectiveCamera''
         else if t = ''orthographicCamera'' then ''TresOrthographicCamera''
         else t)"

definition getTresType :: "string \<Rightarrow> string" where
  "getTresType t = ''Tres'' @ capitalize t"

text \<open>The table entry \<open>duplicates.geometries[obj.geometry.uuid + obj.material.name]\<close>,
  looked up only when the object has both a geometry and a material.\<close>

definition instanceEntry :: "closure \<Rightarrow> object3d \<Rightarrow> duplicate option" where
  "instanceEntry ctx obj =
     (case geometry obj of
        None \<Rightarrow> None
      | Some uuid \<Rightarrow>
          (case material obj of
             None \<Rightarrow> None
           | Some m \<Rightarrow> map_of (ctx_geometries ctx) (uuid @ mat_name m)))"

definition instanced :: "closure \<Rightarrow> object3d \<Rightarrow> bool" where
  "instanced ctx obj =
     ((opt_instance (ctx_options ctx) \<or> opt_instanceall (ctx_options ctx)) \<and>
      (case instanceEntry ctx obj of
         None \<Rightarrow> False
       | Some d \<Rightarrow> dup_count d > (if opt_instanceall (ctx_options ctx) then 0 else 1)))"

record info =
  info_type :: string
  info_node :: string
  info_instanced :: bool
  info_animated :: bool

definition getInfo :: "closure \<Rightarrow> object3d \<Rightarrow> info" where
  "getInfo ctx obj =
     \<lparr>info_type = getType obj,
      info_node = ''nodes'' @ sanitizeName (ctx_isVarName ctx) (name obj),
      info_instanced = instanced ctx obj,
      info_animated = ctx_animated ctx\<rparr>"

section \<open>\<open>handleProps\<close> (lines 141--217)\<close>

text \<open>
  Every call of \<open>rNbr\<close> throws the same \<open>RangeError\<close> when the precision is outside
  \<open>0..100\<close> and none throws otherwise. \<open>handleProps\<close> always reaches the call on line 191
  (every \<open>Object3D\<close> has a \<open>position\<close> vector) and nothing before it has an effect, so
  \<open>handleProps\<close> throws exactly when the precision is out of range. Under a valid
  precision, \<open>rounded\<close> is the number \<open>rNbr\<close> returns, \<open>num\<close> its rendering in a template
  string, and \<open>deg\<close> the text \<open>rDeg\<close> returns.
\<close>

definition rounded :: "options \<Rightarrow> rat \<Rightarrow> rat" where
  "rounded opts v = toFixedValue (nat (precisionOf opts)) v"

definition num :: "options \<Rightarrow> rat \<Rightarrow> string" where
  "num opts v = numberToString (rounded opts v)"

definition deg :: "options \<Rightarrow> rat \<Rightarrow> string" where
  "deg opts v = (case rDeg opts v of Inr s \<Rightarrow> s | Inl e \<Rightarrow> [])"

text \<open>
  \<open>rNbr(v.length())\<close> as a truth value: the length \<open>sqrt (x\<^sup>2 + y\<^sup>2 + z\<^sup>2)\<close> rounds to a
  non-zero number at \<open>d\<close> decimals iff it is at least \<open>1 / (2 * 10^d)\<close>, that is iff
  \<open>4 * (x\<^sup>2 + y\<^sup>2 + z\<^sup>2) * 100^d \<ge> 1\<close>.
\<close>

definition lengthSq :: "vec3 \<Rightarrow> rat" where
  "lengthSq v = vx v * vx v + vy v * vy v + vz v * vz v"

definition roundedLengthNonzero :: "options \<Rightarrow> vec3 \<Rightarrow> bool" where
  "roundedLengthNonzero opts v = (1 \<le> 4 * lengthSq v * 100 ^ nat (precisionOf opts))"

definition vecText :: "options \<Rightarrow> vec3 \<Rightarrow> string" where
  "vecText opts v = ''['' @ num opts (vx v) @ '', '' @ num opts (vy v) @ '', '' @ num opts (vz v) @ '']''"

definition cameraProps :: "options \<Rightarrow> string \<Rightarrow> object3d \<Rightarrow> string" where
  "cameraProps opts ty obj =
     (if ty = ''TresPerspectiveCamera'' \<or> ty = ''TresOrthographicCamera'' then
        attr '':make-default'' ''false''
        @ (if zoom obj \<noteq> 1 then attr '':zoom'' (num opts (zoom obj)) else [])
        @ (if far obj \<noteq> 2000 then attr '':far'' (num opts (far obj)) else [])
        @ (if near obj \<noteq> 1 / 10 then attr '':near'' (num opts (near obj)) else [])
      else [])
     @ (if ty = ''TresPerspectiveCamera'' \<and> fov obj \<noteq> 50
        then attr '':fov'' (num opts (fov obj)) else [])"

text \<open>Lines 157--188, the block skipped for an instanced object.\<close>

definition ownProps :: "closure \<Rightarrow> string \<Rightarrow> object3d \<Rightarrow> string" where
  "ownProps ctx ty obj =
     (let opts = ctx_options ctx;
          node = ''nodes'' @ sanitizeName (ctx_isVarName ctx) (name obj)
      in (if ty = ''mesh'' \<and> opt_shadows opts then ''cast-shadow receive-shadow '' else [])
         @ (if geometry obj \<noteq> None \<and> \<not> isInstancedMesh obj
            then attr '':geometry'' (node @ ''.geometry'') else [])
         @ (case material obj of
              None \<Rightarrow> []
            | Some m \<Rightarrow>
                if isInstancedMesh obj then []
                else if mat_name m \<noteq> []
                then attr '':material'' (''materials'' @ sanitizeName (ctx_isVarName ctx) (mat_name m))
                else attr '':material'' (node @ ''.material''))
         @ (if instanceMatrix obj then attr '':instance-matrix'' (node @ ''.instanceMatrix'') else [])
         @ (if instanceColor obj then attr '':instance-color'' (node @ ''.instanceColor'') else [])
         @ (if skeleton obj then attr '':skeleton'' (node @ ''.skeleton'') else [])
         @ (if \<not> visible obj then attr '':visible'' ''false'' else [])
         @ (if castShadow obj then ''cast-shadow '' else [])
         @ (if receiveShadow obj then ''receive-shadow '' else [])
         @ (if morphTargetDictionary obj
            then attr '':morph-target-dictionary'' (node @ ''.morphTargetDictionary'') else [])
         @ (if morphTargetInfluences obj
            then attr '':morph-target-influences'' (node @ ''.morphTargetInfluences'') else [])
         @ (case intensity obj of
              None \<Rightarrow> []
            | Some v \<Rightarrow> if v \<noteq> 0 \<and> rounded opts v \<noteq> 0 then attr '':intensity'' (num opts v) else [])
         @ (case angle obj of
              None \<Rightarrow> []
            | Some v \<Rightarrow> if v \<noteq> 0 \<and> v \<noteq> Math_PI / 3 then attr '':angle'' (deg opts v) else [])
         @ (case penumbra obj of
              None \<Rightarrow> []
            | Some v \<Rightarrow> if v \<noteq> 0 \<and> rounded opts v \<noteq> 0 then attr '':penumbra'' (num opts v) else [])
         @ (case decay obj of
              None \<Rightarrow> []
            | Some v \<Rightarrow> if v \<noteq> 0 \<and> rounded opts v \<noteq> 1 then attr '':decay'' (num opts v) else [])
         @ (case distance obj of
              None \<Rightarrow> []
            | Some v \<Rightarrow> if v \<noteq> 0 \<and> rounded opts v \<noteq> 0 then attr '':distance'' (num opts v) else [])
         @ (case up obj of
              None \<Rightarrow> []
            | Some u \<Rightarrow> if u \<noteq> vec 0 1 0 then attr '':up'' (vecText opts u) else []))"

text \<open>Lines 190--214, written for every object.\<close>

definition transformProps :: "closure \<Rightarrow> object3d \<Rightarrow> string" where
  "transformProps ctx obj =
     (let opts = ctx_options ctx;
          rX = rounded opts (vx (scale obj));
          rY = rounded opts (vy (scale obj));
          rZ = rounded opts (vz (scale obj))
      in (case color obj of
            None \<Rightarrow> []
          | Some hex \<Rightarrow> if hex \<noteq> ''ffffff'' then attr ''color'' (''#'' @ hex) else [])
         @ (if roundedLengthNonzero opts (position obj)
            then attr '':position'' (vecText opts (position obj)) else [])
         @ (if roundedLengthNonzero opts (rotation obj)
            then attr '':rotation''
                   (''['' @ deg opts (vx (rotation obj)) @ '', '' @ deg opts (vy (rotation obj))
                    @ '', '' @ deg opts (vz (rotation obj)) @ '']'')
            else [])
         @ (if \<not> (rX = 1 \<and> rY = 1 \<and> rZ = 1) then
              (if rX = rY \<and> rX = rZ then attr '':scale'' (numberToString rX)
               else attr '':scale''
                      (''['' @ numberToString rX @ '', '' @ numberToString rY @ '', ''
                       @ numberToString rZ @ '']''))
            else [])
         @ (case userData obj of
              None \<Rightarrow> []
            | Some js \<Rightarrow> if opt_meta opts then '':user-data='' @ sq @ js @ sq @ '' '' else []))"

definition handleProps :: "closure \<Rightarrow> object3d \<Rightarrow> js_error + string" where
  "handleProps ctx obj =
     (if \<not> toFixedOk (ctx_options ctx) then Inl RangeError
      else Inr (cameraProps (ctx_options ctx) (getType obj) obj
                @ (if \<not> instanced ctx obj then ownProps ctx (getType obj) obj else [])
                @ transformProps ctx obj))"

section \<open>\<open>prune\<close> and \<open>print\<close> (lines 232--401)\<close>

definition equalOrNegated :: "vec3 \<Rightarrow> vec3 \<Rightarrow> bool" where
  "equalOrNegated a b =
     ((vx a = vx b \<or> vx a = - vx b) \<and> (vy a = vy b \<or> vy a = - vy b) \<and> (vz a = vz b \<or> vz a = - vz b))"

subsection \<open>The attribute scan of \<open>prune\<close> (lines 255--258)\<close>

text \<open>
  The regular expression \<open>/([a-z-A-Z]*)={([a-zA-Z0-9\.\[\]\-\,\ \/]*)}/g\<close> matches a
  (possibly empty) run of letters and hyphens, the two characters \<open>={\<close>, a run of
  characters of the second class, and \<open>}\<close>. Neither class contains the character that
  must follow its run, so a match at a position takes the longest run or fails.
  \<open>matchAll\<close> scans from the left and resumes after each match.
\<close>

definition isKeyChar :: "char \<Rightarrow> bool" where
  "isKeyChar c = (isLetter c \<or> c = CHR ''-'')"

definition isValueChar :: "char \<Rightarrow> bool" where
  "isValueChar c = (isLetter c \<or> isDigitChar c \<or> c \<in> set ''.[]-, /'')"

definition matchAt :: "string \<Rightarrow> (string \<times> string \<times> string) option" where
  "matchAt s =
     (case dropWhile isKeyChar s of
        c1 # c2 # r \<Rightarrow>
          if c1 = CHR ''='' \<and> c2 = CHR ''{'' then
            (case dropWhile isValueChar r of
               c3 # r' \<Rightarrow>
                 if c3 = CHR ''}'' then Some (takeWhile isKeyChar s, takeWhile isValueChar r, r')
                 else None
             | [] \<Rightarrow> None)
          else None
      | _ \<Rightarrow> None)"

lemma matchAt_shorter: "matchAt s = Some (k, v, r) \<Longrightarrow> length r < length s"
proof -
  assume m: "matchAt s = Some (k, v, r)"
  from m obtain r1 where r1: "dropWhile isKeyChar s = CHR ''='' # CHR ''{'' # r1"
    and r: "dropWhile isValueChar r1 = CHR ''}'' # r"
    unfolding matchAt_def by (simp split: list.splits if_splits)
  have "length (dropWhile isValueChar r1) \<le> length r1"
    by (rule length_dropWhile_le)
  with r have a: "length r < length r1" by simp
  have "length (dropWhile isKeyChar s) \<le> length s"
    by (rule length_dropWhile_le)
  with r1 have "length r1 < length s" by simp
  with a show ?thesis by simp
qed

function matchAll :: "string \<Rightarrow> (string \<times> string) list" where
  "matchAll [] = []"
| "matchAll (c # s) =
     (case matchAt (c # s) of
        Some (k, v, r) \<Rightarrow> (k, v) # matchAll r
      | None \<Rightarrow> matchAll s)"
  by pat_completeness auto
termination
  by (relation "measure length") (auto dest: matchAt_shorter)


definition keysOf :: "string \<Rightarrow> string list" where
  "keysOf s = map fst (matchAll s)"

text \<open>A text without the character \<open>{\<close> has no match; running \<open>keysOf\<close> tests this
  first.\<close>

lemma matchAt_no_brace: "CHR ''{'' \<notin> set s \<Longrightarrow> matchAt s = None"
proof (rule ccontr)
  assume nb: "CHR ''{'' \<notin> set s" and "matchAt s \<noteq> None"
  then obtain r where "dropWhile isKeyChar s = CHR ''='' # CHR ''{'' # r"
    unfolding matchAt_def by (auto split: list.splits if_splits)
  then have "CHR ''{'' \<in> set (dropWhile isKeyChar s)" by simp
  then have "CHR ''{'' \<in> set s" by (rule set_dropWhileD)
  with nb show False by simp
qed

lemma matchAll_no_brace: "CHR ''{'' \<notin> set s \<Longrightarrow> matchAll s = []"
  by (induction s rule: matchAll.induct) (simp_all add: matchAt_no_brace)

lemma keysOf_code [code]:
  "keysOf s = (if CHR ''{'' \<in> set s then map fst (matchAll s) else [])"
  by (simp add: keysOf_def matchAll_no_brace)

text \<open>The guard of line 239.\<close>

definition prunable :: "closure \<Rightarrow> object3d \<Rightarrow> bool" where
  "prunable ctx obj =
     (\<not> removed obj \<and> \<not> opt_keepgroups (ctx_options ctx) \<and> \<not> ctx_animated ctx \<and>
      (getType obj = ''group'' \<or> getType obj = ''scene''))"

text \<open>The common condition of lines 267 and 285, for the only child \<open>first\<close>.\<close>

definition rotationPair :: "object3d \<Rightarrow> object3d \<Rightarrow> tree list \<Rightarrow> bool" where
  "rotationPair obj first rest =
     (rest = [] \<and> getType first = getType obj \<and> equalOrNegated (rotation obj) (rotation first))"

definition doubleNegative :: "string list \<Rightarrow> string list \<Rightarrow> bool" where
  "doubleNegative keys1 keys2 = (keys1 = [''rotation''] \<and> keys2 = [''rotation''])"

definition doubleNegativeProps :: "string list \<Rightarrow> string list \<Rightarrow> bool" where
  "doubleNegativeProps keys1 keys2 =
     (keys1 = [''rotation''] \<and> length keys2 > 1 \<and> ''rotation'' \<in> set keys2)"

definition isChildTransformed :: "string list \<Rightarrow> bool" where
  "isChildTransformed keys2 =
     (''position'' \<in> set keys2 \<or> ''rotation'' \<in> set keys2 \<or> ''scale'' \<in> set keys2)"

definition hasOtherProps :: "string list \<Rightarrow> bool" where
  "hasOtherProps keys1 = (\<exists>k \<in> set keys1. k \<notin> set [''position'', ''scale'', ''rotation''])"

text \<open>Line 309: \<open>obj.children[0][key].copy(obj[key])\<close> for a key among \<open>position\<close>,
  \<open>scale\<close> and \<open>rotation\<close>.\<close>

definition copyProp :: "object3d \<Rightarrow> object3d \<Rightarrow> string \<Rightarrow> object3d" where
  "copyProp obj first k =
     (if k = ''position'' then first\<lparr>position := position obj\<rparr>
      else if k = ''scale'' then first\<lparr>scale := scale obj\<rparr>
      else if k = ''rotation'' then first\<lparr>rotation := rotation obj\<rparr>
      else first)"

text \<open>Lines 323--327: the traversal finds no object whose type is neither \<open>group\<close> nor
  \<open>object3D\<close>.\<close>

definition lackOfContent :: "store \<Rightarrow> tree \<Rightarrow> bool" where
  "lackOfContent st t =
     list_all (\<lambda>j. getType (st j) = ''group'' \<or> getType (st j) = ''object3D'') (traverse t)"

text \<open>Pieces of \<open>print\<close>: the bone bail-out (line 352), the light with its target
  (lines 356--361), the opening tag with the reassigned \<open>type\<close> (lines 366--380), the name
  attribute (line 383), and the closing (lines 393--400).\<close>

definition bonePrimitive :: "closure \<Rightarrow> object3d \<Rightarrow> string" where
  "bonePrimitive ctx obj =
     ''<TresPrimitive '' @ attr '':object'' (''nodes'' @ sanitizeName (ctx_isVarName ctx) (name obj))
     @ ''/>''"

definition isLightWithTarget :: "object3d \<Rightarrow> tree list \<Rightarrow> bool" where
  "isLightWithTarget obj cs =
     (suffix ''Light'' (getType obj) \<and>
      (case target obj of
         None \<Rightarrow> False
       | Some t \<Rightarrow> (case cs of [] \<Rightarrow> False | c # _ \<Rightarrow> ident c = t)))"

definition lightWithTarget :: "closure \<Rightarrow> object3d \<Rightarrow> object3d \<Rightarrow> js_error + string" where
  "lightWithTarget ctx obj targetObj =
     (case handleProps ctx obj of
        Inl e \<Rightarrow> Inl e
      | Inr props \<Rightarrow>
          (case handleProps ctx targetObj of
             Inl e \<Rightarrow> Inl e
           | Inr targetProps \<Rightarrow>
               (let node = ''nodes'' @ sanitizeName (ctx_isVarName ctx) (name obj);
                    tresLightType = getTresType (getType obj)
                in Inr (''<'' @ tresLightType @ '' '' @ props @ '' :target='' @ dq @ node @ ''.target'' @ dq @ ''>'' @ nl
                        @ ''        <TresPrimitive '' @ attr '':object'' (node @ ''.target'') @ targetProps @ '' />'' @ nl
                        @ ''      </'' @ tresLightType @ ''>''))))"

text \<open>The opening tag and the value of \<open>type\<close> after lines 366--380. Line 372 reads
  \<open>obj.material.name\<close> and throws a \<open>TypeError\<close> when an instanced mesh has no material.\<close>

definition openTag :: "closure \<Rightarrow> object3d \<Rightarrow> js_error + (string \<times> string)" where
  "openTag ctx obj =
     (let node = ''nodes'' @ sanitizeName (ctx_isVarName ctx) (name obj)
      in if instanced ctx obj then
           (case instanceEntry ctx obj of
              None \<Rightarrow> Inl TypeError
            | Some d \<Rightarrow> Inr (''<instances.'' @ dup_name d @ '' '', ''instances.'' @ dup_name d))
         else if isInstancedMesh obj then
           (case material obj of
              None \<Rightarrow> Inl TypeError
            | Some m \<Rightarrow>
                (let geo = node @ ''.geometry'';
                     mat = (if mat_name m \<noteq> [] then ''materials'' @ sanitizeName (ctx_isVarName ctx) (mat_name m)
                            else node @ ''.material'');
                     cnt = (if count obj = 0 then node @ ''.count'' else showNat (count obj))
                 in Inr (''<TresInstancedMesh ''
                         @ attr '':args'' (''['' @ geo @ '', '' @ mat @ '', '' @ cnt @ '']''),
                         ''TresInstancedMesh'')))
         else if getType obj = ''bone'' then Inr (''<TresPrimitive '' @ attr '':object'' node, ''bone'')
         else Inr (''<'' @ getTresType (getType obj) @ '' '', getType obj))"

definition nameAttr :: "closure \<Rightarrow> object3d \<Rightarrow> string" where
  "nameAttr ctx obj =
     (if name obj \<noteq> [] \<and>
         (opt_keepnames (ctx_options ctx) \<or> morphTargetDictionary obj \<or> ctx_animated ctx)
      then attr ''name'' (name obj) else [])"

definition closeTag :: "string \<Rightarrow> string \<Rightarrow> string \<Rightarrow> string \<Rightarrow> string" where
  "closeTag ty tresType result inner =
     result @ (if inner \<noteq> [] then ''>'' else ''/>'') @ nl
     @ (if inner \<noteq> [] then
          (if ty = ''bone'' then inner @ ''</TresPrimitive>''
           else inner @ ''</'' @ tresType @ ''>'')
        else [])"

fun print :: "closure \<Rightarrow> tree \<Rightarrow> store \<Rightarrow> js_error + (string \<times> store)"
  and printAll :: "closure \<Rightarrow> tree list \<Rightarrow> store \<Rightarrow> js_error + (string \<times> store)"
  and prune :: "closure \<Rightarrow> tree \<Rightarrow> string \<Rightarrow> string \<Rightarrow> string \<Rightarrow> store
                  \<Rightarrow> js_error + (string option \<times> store)"
where
  "print ctx (Node i cs) st =
     (if removed (st i) \<and> cs \<noteq> [] then printAll ctx cs st
      else if \<not> opt_bones (ctx_options ctx) \<and> getType (st i) = ''bone''
      then Inr (bonePrimitive ctx (st i), st)
      else if isLightWithTarget (st i) cs
      then (case lightWithTarget ctx (st i) (st (ident (hd cs))) of
              Inl e \<Rightarrow> Inl e
            | Inr s \<Rightarrow> Inr (s, st))
      else
        (case printAll ctx cs st of
           Inl e \<Rightarrow> Inl e
         | Inr (inner, st1) \<Rightarrow>
             (case openTag ctx (st1 i) of
                Inl e \<Rightarrow> Inl e
              | Inr (tag, ty) \<Rightarrow>
                  (case handleProps ctx (st1 i) of
                     Inl e \<Rightarrow> Inl e
                   | Inr props \<Rightarrow>
                       (let oldResult = tag @ nameAttr ctx (st1 i);
                            result = oldResult @ props
                        in case prune ctx (Node i cs) inner result oldResult st1 of
                             Inl e \<Rightarrow> Inl e
                           | Inr (Some pruned, st2) \<Rightarrow> Inr (pruned, st2)
                           | Inr (None, st2) \<Rightarrow>
                               Inr (closeTag ty (getTresType (getType (st i))) result inner, st2))))))"
| "printAll ctx [] st = Inr ([], st)"
| "printAll ctx (c # cs) st =
     (case print ctx c st of
        Inl e \<Rightarrow> Inl e
      | Inr (s, st1) \<Rightarrow>
          (case printAll ctx cs st1 of
             Inl e \<Rightarrow> Inl e
           | Inr (ss, st2) \<Rightarrow> Inr (s @ ss, st2)))"
| "prune ctx (Node i []) inner result oldResult st =
     (if prunable ctx (st i) then Inr (Some inner, st(i := (st i)\<lparr>removed := True\<rparr>))
      else Inr (None, st))"
| "prune ctx (Node i (Node f gcs # rest)) inner result oldResult st =
     (if \<not> prunable ctx (st i) then Inr (None, st)
      else if result = oldResult then Inr (Some inner, st(i := (st i)\<lparr>removed := True\<rparr>))
      else
        (case handleProps ctx (st f) of
           Inl e \<Rightarrow> Inl e
         | Inr firstProps \<Rightarrow>
             (let keys1 = keysOf result; keys2 = keysOf firstProps
              in if rotationPair (st i) (st f) rest \<and> doubleNegative keys1 keys2 then
                   (let st1 = st(f := (st f)\<lparr>removed := True\<rparr>);
                        st2 = st1(i := (st1 i)\<lparr>removed := True\<rparr>)
                    in case printAll ctx gcs st2 of
                         Inl e \<Rightarrow> Inl e
                       | Inr (s, st3) \<Rightarrow> Inr (Some s, st3))
                 else if rotationPair (st i) (st f) rest \<and> doubleNegativeProps keys1 keys2 then
                   (let st1 = st(i := (st i)\<lparr>removed := True\<rparr>);
                        st2 = st1(f := (st1 f)\<lparr>rotation := vec 0 0 0\<rparr>)
                    in case print ctx (Node f gcs) st2 of
                         Inl e \<Rightarrow> Inl e
                       | Inr (s, st3) \<Rightarrow> Inr (Some s, st3))
                 else if rest = [] \<and> \<not> removed (st f) \<and> \<not> isChildTransformed keys2
                         \<and> \<not> hasOtherProps keys1 then
                   (let st1 = foldl (\<lambda>s k. s(f := copyProp (s i) (s f) k)) st keys1
                    in case print ctx (Node f gcs) st1 of
                         Inl e \<Rightarrow> Inl e
                       | Inr (s, st2) \<Rightarrow> Inr (Some s, st2(i := (st2 i)\<lparr>removed := True\<rparr>)))
                 else if lackOfContent st (Node i (Node f gcs # rest)) then Inr (Some [], st)
                 else Inr (None, st))))"


section \<open>The passes of \<open>parse\<close> around the compile recursion\<close>

subsection \<open>Tree surgery: \<open>Object3D.add\<close> and \<open>Object3D.remove\<close>\<close>

fun pathTo :: "nat \<Rightarrow> tree \<Rightarrow> nat list option"
  and pathToAny :: "nat \<Rightarrow> tree list \<Rightarrow> nat list option"
where
  "pathTo j (Node i cs) =
     (if i = j then Some [i]
      else (case pathToAny j cs of None \<Rightarrow> None | Some p \<Rightarrow> Some (i # p)))"
| "pathToAny j [] = None"
| "pathToAny j (c # cs) = (case pathTo j c of Some p \<Rightarrow> Some p | None \<Rightarrow> pathToAny j cs)"

fun subtree :: "nat \<Rightarrow> tree \<Rightarrow> tree option"
  and subtreeAny :: "nat \<Rightarrow> tree list \<Rightarrow> tree option"
where
  "subtree j (Node i cs) = (if i = j then Some (Node i cs) else subtreeAny j cs)"
| "subtreeAny j [] = None"
| "subtreeAny j (c # cs) = (case subtree j c of Some s \<Rightarrow> Some s | None \<Rightarrow> subtreeAny j cs)"

text \<open>\<open>o.parent\<close>: the last identity before \<open>o\<close> on the path from the root.\<close>

definition parentOf :: "nat \<Rightarrow> tree \<Rightarrow> nat option" where
  "parentOf j t =
     (case pathTo j t of
        None \<Rightarrow> None
      | Some p \<Rightarrow> (case rev p of a # b # _ \<Rightarrow> Some b | _ \<Rightarrow> None))"

text \<open>\<open>parent.remove(o)\<close>: the object leaves the \<open>children\<close> array that holds it.\<close>

fun detach :: "nat \<Rightarrow> tree \<Rightarrow> tree" where
  "detach j (Node i cs) = Node i (map (detach j) (filter (\<lambda>c. ident c \<noteq> j) cs))"

fun appendChild :: "nat \<Rightarrow> tree \<Rightarrow> tree \<Rightarrow> tree" where
  "appendChild p c (Node i cs) = Node i (map (appendChild p c) cs @ (if i = p then [c] else []))"

text \<open>\<open>p.add(o)\<close>: \<open>o\<close> is removed from its parent and pushed onto the end of
  \<open>p.children\<close>. Adding the root is refused by three.js (an object cannot be added to
  itself; the root is only ever added to itself here).\<close>

definition add :: "nat \<Rightarrow> nat \<Rightarrow> tree \<Rightarrow> tree" where
  "add p j t =
     (if j = ident t then t
      else (case subtree j t of None \<Rightarrow> t | Some s \<Rightarrow> appendChild p s (detach j t)))"

subsection \<open>Flattening (lines 436--459)\<close>

text \<open>
  \<open>updateWorldMatrix\<close> and \<open>matrixWorld.decompose\<close> are three.js matrix code. They are
  a parameter \<open>world\<close>: from the local position, rotation and scale of the objects on the
  path from the root to the mesh, it gives the world position, rotation and scale.
\<close>

type_synonym transform = "vec3 \<times> vec3 \<times> vec3"

definition localTransform :: "object3d \<Rightarrow> transform" where
  "localTransform obj = (position obj, rotation obj, scale obj)"

definition flattenStep :: "(transform list \<Rightarrow> transform) \<Rightarrow> tree \<times> store \<Rightarrow> nat \<Rightarrow> tree \<times> store" where
  "flattenStep world ts ob =
     (case ts of (t, st) \<Rightarrow>
        if isMesh (st ob) then
          (case world (map (localTransform \<circ> st) (case pathTo ob t of None \<Rightarrow> [ob] | Some p \<Rightarrow> p)) of
             (wp, wr, ws) \<Rightarrow>
               ((if parentOf ob t \<noteq> Some (ident t) then add (ident t) ob t else t),
                st(ob := (st ob)\<lparr>position := wp, rotation := wr, scale := ws\<rparr>)))
        else (t, st))"

definition flatten :: "(transform list \<Rightarrow> transform) \<Rightarrow> options \<Rightarrow> nat list \<Rightarrow> tree \<times> store \<Rightarrow> tree \<times> store" where
  "flatten world opts objects ts =
     (if \<not> opt_keepgroups opts then foldl (flattenStep world) ts objects else ts)"

subsection \<open>Re-parenting after the dry run (lines 466--480)\<close>

text \<open>Lines 469--473: the nearest ancestor that is not removed, else the scene.\<close>

definition nearestKept :: "store \<Rightarrow> tree \<Rightarrow> nat \<Rightarrow> nat" where
  "nearestKept st t ob =
     (case pathTo ob t of
        None \<Rightarrow> ident t
      | Some p \<Rightarrow>
          (case find (\<lambda>a. \<not> removed (st a)) (rev (butlast p)) of
             Some a \<Rightarrow> a
           | None \<Rightarrow> ident t))"

definition childrenOf :: "nat \<Rightarrow> tree \<Rightarrow> nat list" where
  "childrenOf ob t = (case subtree ob t of None \<Rightarrow> [] | Some s \<Rightarrow> map ident (children s))"

definition moveChildren :: "store \<Rightarrow> tree \<Rightarrow> nat \<Rightarrow> tree" where
  "moveChildren st t ob =
     (if removed (st ob) then foldl (\<lambda>t' c. add (nearestKept st t ob) c t') t (childrenOf ob t)
      else t)"

definition dropRemoved :: "store \<Rightarrow> tree \<Rightarrow> nat \<Rightarrow> tree" where
  "dropRemoved st t ob = (if removed (st ob) \<and> parentOf ob t \<noteq> None then detach ob t else t)"

definition reparent :: "store \<Rightarrow> nat list \<Rightarrow> tree \<Rightarrow> tree" where
  "reparent st objs t = foldl (dropRemoved st) (foldl (moveChildren st) t objs) objs"

text \<open>
  The body of the \<open>try\<close> block (lines 462--483): the dry run whose text is discarded,
  the two loops over \<open>objects\<close>, and the second pass. The result is the text assigned to
  \<open>scene\<close> together with the graph as the second pass leaves it. An exception of either
  pass leaves the block at once.
\<close>

fun secondPass :: "tree \<Rightarrow> js_error + (string \<times> store) \<Rightarrow> js_error + (string \<times> tree \<times> store)" where
  "secondPass t (Inl e) = Inl e"
| "secondPass t (Inr (s, st)) = Inr (s, t, st)"

fun afterDryRun :: "closure \<Rightarrow> nat list \<Rightarrow> tree \<Rightarrow> js_error + (string \<times> store)
                      \<Rightarrow> js_error + (string \<times> tree \<times> store)" where
  "afterDryRun ctx objs t (Inl e) = Inl e"
| "afterDryRun ctx objs t (Inr (dry, st)) =
     secondPass (reparent st objs t) (print ctx (reparent st objs t) st)"

definition compile :: "closure \<Rightarrow> nat list \<Rightarrow> tree \<Rightarrow> store \<Rightarrow> js_error + (string \<times> tree \<times> store)" where
  "compile ctx objs t st =
     (if \<not> opt_keepgroups (ctx_options ctx) then afterDryRun ctx objs t (print ctx t st)
      else secondPass t (print ctx t st))"

subsection \<open>The header and the document (lines 403--415, 487--562)\<close>

fun join :: "string \<Rightarrow> string list \<Rightarrow> string" where
  "join sep [] = []"
| "join sep [s] = s"
| "join sep (s # t # ss) = s @ sep @ join sep (t # ss)"

definition parseExtras :: "(string \<times> string) list option \<Rightarrow> string" where
  "parseExtras extras =
     (case extras of
        None \<Rightarrow> []
      | Some kvs \<Rightarrow> join nl (map (\<lambda>(k, v). capitalize k @ '': '' @ v) kvs) @ nl)"

text \<open>The parts of \<open>gltf.parser.json\<close> that are read: \<open>asset.extras\<close> with its values
  as they print, \<open>extensionsUsed\<close>, and for the unlit fix-up the materials (name, whether
  \<open>extensions.KHR_materials_unlit\<close> is set, the index of \<open>emissiveTexture\<close>, whether
  \<open>pbrMetallicRoughness.baseColorTexture\<close> is defined), the \<open>source\<close> of each texture and
  the \<open>uri\<close> of each image.\<close>

record json_material =
  jm_name :: string
  jm_unlit :: bool
  jm_emissiveTexture :: "nat option"
  jm_baseColorTexture :: bool

record gltf_json =
  js_extras :: "(string \<times> string) list option"
  js_extensionsUsed :: "string list option"
  js_materials :: "json_material list option"
  js_textures :: "nat option list option"
  js_images :: "string option list option"

record gltf =
  scene :: tree
  objects :: store
  animations :: "string list"
  json :: gltf_json

text \<open>Line 9: an \<open>Object3D\<close> passed instead of a loaded file is wrapped.\<close>

definition wrapScene :: "tree \<Rightarrow> store \<Rightarrow> gltf" where
  "wrapScene t st =
     \<lparr>scene = t, objects = st, animations = [],
      json = \<lparr>js_extras = None, js_extensionsUsed = None, js_materials = None,
              js_textures = None, js_images = None\<rparr>\<rparr>"

definition urlOf :: "string \<Rightarrow> string" where
  "urlOf fileName = (if prefix ''http'' (map toLowerChar fileName) then [] else ''/'') @ fileName"

definition headerText :: "options \<Rightarrow> gltf_json \<Rightarrow> string" where
  "headerText opts js =
     ''/*'' @ nl
     @ (case opt_header opts of
          None \<Rightarrow> ''Auto-generated by: https://github.com/OmnomnomTee/gltfvue''
        | Some h \<Rightarrow> if h \<noteq> [] then h else ''Auto-generated by: https://github.com/OmnomnomTee/gltfvue'')
     @ '' ''
     @ (case opt_size opts of None \<Rightarrow> [] | Some s \<Rightarrow> if s \<noteq> [] then nl @ ''Files: '' @ s else [])
     @ nl @ parseExtras (js_extras js) @ ''*/''"

definition nthOpt :: "'a list \<Rightarrow> nat \<Rightarrow> 'a option" where
  "nthOpt xs n = (if n < length xs then Some (xs ! n) else None)"

definition varOf :: "string \<Rightarrow> string" where
  "varOf matName = map (\<lambda>c. if isLetter c \<or> isDigitChar c then c else CHR ''_'') matName"

definition dirOf :: "string \<Rightarrow> string" where
  "dirOf url = rev (dropWhile (\<lambda>c. c \<noteq> CHR ''/'') (rev url))"

text \<open>Lines 510--536, the lines written for one material.\<close>

definition materialFix :: "(string \<Rightarrow> bool) \<Rightarrow> string \<Rightarrow> gltf_json \<Rightarrow> json_material \<Rightarrow> string" where
  "materialFix isVarName url js mat =
     (let setWhite = ''materials'' @ sanitizeName isVarName (jm_name mat) @ ''.color.setRGB(1, 1, 1)'' @ nl
      in if \<not> jm_unlit mat then []
         else if jm_baseColorTexture mat then setWhite
         else
           (case (jm_emissiveTexture mat, js_images js) of
              (Some texIndex, Some images) \<Rightarrow>
                setWhite
                @ (case Option.bind (Option.bind (js_textures js) (\<lambda>ts. nthOpt ts texIndex)) id of
                     None \<Rightarrow> []
                   | Some imageIndex \<Rightarrow>
                       (case Option.bind (nthOpt images imageIndex) id of
                          None \<Rightarrow> []
                        | Some imagePath \<Rightarrow>
                            if imagePath = [] then []
                            else ''const '' @ varOf (jm_name mat) @ ''_map = textureLoader.load(''
                                   @ sq @ dirOf url @ imagePath @ sq @ '')'' @ nl
                                 @ varOf (jm_name mat) @ ''_map.flipY = false'' @ nl
                                 @ ''materials'' @ sanitizeName isVarName (jm_name mat) @ ''.map = ''
                                   @ varOf (jm_name mat) @ ''_map'' @ nl))
            | _ \<Rightarrow> []))"

definition materialFixCode :: "(string \<Rightarrow> bool) \<Rightarrow> string \<Rightarrow> gltf_json \<Rightarrow> string" where
  "materialFixCode isVarName url js =
     (case (js_extensionsUsed js, js_materials js) of
        (Some used, Some mats) \<Rightarrow>
          if ''KHR_materials_unlit'' \<in> set used
             \<and> list_ex (\<lambda>m. jm_unlit m \<and> jm_emissiveTexture m \<noteq> None) mats
          then nl @ ''// Fix unlit materials: Apply emissive textures to base color for proper display'' @ nl
               @ ''import { TextureLoader } from '' @ sq @ ''three'' @ sq @ nl
               @ ''const textureLoader = new TextureLoader()'' @ nl @ nl
               @ concat (map (materialFix isVarName url js) mats)
               @ nl @ ''// Mark materials as needing update'' @ nl
               @ ''Object.values(materials).forEach(mat => mat.needsUpdate = true)'' @ nl
          else []
      | _ \<Rightarrow> [])"

text \<open>Lines 544--555, the single-file component around the text of \<open>scene\<close>.\<close>

definition componentText :: "bool \<Rightarrow> string \<Rightarrow> string \<Rightarrow> string \<Rightarrow> string" where
  "componentText hasAnimations url fixCode sceneText =
     ''<script setup lang='' @ dq @ ''ts'' @ dq @ ''>'' @ nl
     @ ''import { useGLTF } from '' @ sq @ ''@tresjs/cientos'' @ sq
     @ (if hasAnimations then nl @ ''import { useAnimations } from '' @ sq @ ''@tresjs/cientos'' @ sq else [])
     @ nl @ nl
     @ ''const { nodes, materials'' @ (if hasAnimations then '', animations'' else [])
     @ '' } = await useGLTF('' @ sq @ url @ sq @ '')'' @ nl
     @ fixCode @ (if hasAnimations then ''const { actions } = useAnimations(animations)'' else []) @ nl
     @ ''</script>'' @ nl @ nl
     @ ''<template>'' @ nl
     @ ''  <TresGroup>'' @ nl
     @ sceneText @ nl
     @ ''  </TresGroup>'' @ nl
     @ ''</template>''"

text \<open>The closure that the helpers see: the options, the duplicate table built from
  the objects in traversal order, and whether the file has animations.\<close>

definition closureOf :: "(string \<Rightarrow> bool) \<Rightarrow> gltf \<Rightarrow> options \<Rightarrow> closure" where
  "closureOf isVarName g opts =
     \<lparr>ctx_isVarName = isVarName, ctx_options = opts,
      ctx_geometries = duplicateGeometries isVarName opts (map (objects g) (traverse (scene g))),
      ctx_animated = (animations g \<noteq> [])\<rparr>"

text \<open>
  Lines 434--486. With the \<open>debug\<close> option the graph is logged first by \<open>p\<close>, which calls
  \<open>rNbr\<close> outside the \<open>try\<close> block, so a precision out of range throws there. Then the
  graph is flattened and compiled; \<open>sceneOf\<close> is the text assigned to \<open>scene\<close>, or the
  exception thrown inside the \<open>try\<close> block.
\<close>

definition sceneOf :: "(string \<Rightarrow> bool) \<Rightarrow> (transform list \<Rightarrow> transform) \<Rightarrow> gltf \<Rightarrow> options
                         \<Rightarrow> js_error + string" where
  "sceneOf isVarName world g opts =
     (case flatten world opts (traverse (scene g)) (scene g, objects g) of
        (t, st) \<Rightarrow> map_sum id fst (compile (closureOf isVarName g opts) (traverse (scene g)) t st))"

text \<open>
  \<open>parse(gltf, {fileName = 'model', ...options})\<close>. An exception thrown inside the
  \<open>try\<close> block is caught and logged, which leaves \<open>scene\<close> undefined; the next use,
  \<open>scene.includes('<TresPrimitive')\<close> on line 492, then throws a \<open>TypeError\<close> out of
  \<open>parse\<close>. Logging itself (\<open>console.log\<close>) is not part of the result. The table
  \<open>duplicates.materials\<close> is built but never read, and is left out.
\<close>

definition parse :: "(string \<Rightarrow> bool) \<Rightarrow> (transform list \<Rightarrow> transform) \<Rightarrow> gltf \<Rightarrow> string \<Rightarrow> options
                       \<Rightarrow> js_error + string" where
  "parse isVarName world g fileName opts =
     (if opt_debug opts \<and> \<not> toFixedOk opts then Inl RangeError
      else
        (case sceneOf isVarName world g opts of
           Inl e \<Rightarrow> Inl TypeError
         | Inr sceneText \<Rightarrow>
             Inr (headerText opts (json g) @ nl
                  @ componentText (animations g \<noteq> []) (urlOf fileName)
                      (materialFixCode isVarName (urlOf fileName) (json g)) sceneText)))"

section \<open>\<open>printTypes\<close> (lines 95--125)\<close>





section \<open>Sample scenes\<close>

text \<open>
  A stand-in for the three.js world transform on sample runs: positions add up along
  the path, rotation and scale are the object's own (exact when no ancestor is rotated
  or scaled). The sample scenes below hold no mesh under a transformed parent.
\<close>

definition world0 :: "transform list \<Rightarrow> transform" where
  "world0 chain =
     (case last chain of
        (p, r, s) \<Rightarrow>
          (foldl (\<lambda>a (q, _, _). vec (vx a + vx q) (vy a + vy q) (vz a + vz q)) (vec 0 0 0) chain, r, s))"

text \<open>The closure of a run with no duplicate geometry and no animation.\<close>

definition plainClosure :: "options \<Rightarrow> closure" where
  "plainClosure opts =
     \<lparr>ctx_isVarName = isVarName0, ctx_options = opts, ctx_geometries = [], ctx_animated = False\<rparr>"

text \<open>A scene whose group \<open>A\<close>, rotated by \<open>(-\<pi>/2, 0, 0)\<close>, has the single child group
  \<open>B\<close>, rotated by \<open>(\<pi>/2, 0, 0)\<close>, which holds two bones.\<close>

definition rotObjects :: store where
  "rotObjects =
     (\<lambda>_. Object3D)
       (0 := Group ''Scene'',
        1 := (Group ''A'')\<lparr>rotation := vec (- (Math_PI / 2)) 0 0\<rparr>,
        2 := (Group ''B'')\<lparr>rotation := vec (Math_PI / 2) 0 0\<rparr>,
        3 := Bone ''b1'',
        4 := Bone ''b2'')"

definition rotScene :: tree where
  "rotScene = Node 0 [Node 1 [Node 2 [Node 3 [], Node 4 []]]]"

text \<open>A scene whose group \<open>G\<close> at position \<open>(1, 2, 3)\<close> holds one point light.\<close>

definition lightObjects :: store where
  "lightObjects =
     (\<lambda>_. Object3D)
       (0 := Group ''Scene'',
        1 := (Group ''G'')\<lparr>position := vec 1 2 3\<rparr>,
        2 := PointLight ''L'')"

definition lightScene :: tree where
  "lightScene = Node 0 [Node 1 [Node 2 []]]"









section \<open>Counting signatures\<close>






section \<open>What the compile recursion writes to the store\<close>

text \<open>Objects are marked removed only if they are groups or scenes.\<close>

definition marksOnlyGroups :: "store \<Rightarrow> bool" where
  "marksOnlyGroups st = (\<forall>j. removed (st j) \<longrightarrow> getType (st j) = ''group'' \<or> getType (st j) = ''scene'')"

text \<open>What a pass may change: no object changes its type, and marks stay on groups
  and scenes.\<close>

definition keepsTypes :: "store \<Rightarrow> store \<Rightarrow> bool" where
  "keepsTypes st st' =
     ((\<forall>j. getType (st' j) = getType (st j)) \<and> (marksOnlyGroups st \<longrightarrow> marksOnlyGroups st'))"

section \<open>The document of a plain run\<close>

text \<open>The header and the component of a run with the default options on a graph
  without animations, extras or unlit materials, around the text of \<open>scene\<close>.\<close>

definition plainDocument :: "string \<Rightarrow> string" where
  "plainDocument sceneText =
     ''/*'' @ nl @ ''Auto-generated by: https://github.com/OmnomnomTee/gltfvue '' @ nl @ ''*/'' @ nl
     @ componentText False ''/model'' [] sceneText"

section \<open>Properties of the duplicate table\<close>

lemma uniqueName_fresh: "uniqueName names a i \<notin> set names"
proof (induction names a i rule: uniqueName.induct)
  case (1 names attempt index)
  then show ?case by (subst uniqueName.simps) simp
qed

lemma bump_names:
  "map (dup_name \<circ> snd)
     (map (\<lambda>(k, e). if k = key then (k, e\<lparr>dup_count := dup_count e + 1\<rparr>) else (k, e)) tbl)
   = map (dup_name \<circ> snd) tbl"
  by (induction tbl) auto

lemma bump_keys:
  "map fst (map (\<lambda>(k, e). if k = key then (k, e\<lparr>dup_count := dup_count e + 1\<rparr>) else (k, e)) tbl)
   = map fst tbl"
  by (induction tbl) auto

lemma addGeometry_names:
  assumes "distinct (map (dup_name \<circ> snd) tbl)"
  shows "distinct (map (dup_name \<circ> snd) (addGeometry iv tbl child))"
  using assms uniqueName_fresh [of "map (dup_name \<circ> snd) tbl"]
  by (auto simp: addGeometry_def Let_def bump_names split: option.splits simp del: map_map)

lemma addGeometry_keys:
  assumes "distinct (map fst tbl)"
  shows "distinct (map fst (addGeometry iv tbl child))"
  using assms
  by (auto simp: addGeometry_def Let_def bump_keys map_of_eq_None_iff split: option.splits
      simp del: map_map)

lemma collect_distinct:
  "distinct (map fst tbl) \<and> distinct (map (dup_name \<circ> snd) tbl) \<Longrightarrow>
   distinct (map fst (foldl (addGeometry iv) tbl objs)) \<and>
   distinct (map (dup_name \<circ> snd) (foldl (addGeometry iv) tbl objs))"
  by (induction objs arbitrary: tbl) (simp_all add: addGeometry_names addGeometry_keys)

lemma table_distinct:
  "distinct (map fst (duplicateGeometries iv opts objs)) \<and>
   distinct (map (dup_name \<circ> snd) (duplicateGeometries iv opts objs))"
  using collect_distinct [of "[]" iv objs]
  by (simp add: duplicateGeometries_def pruneGeometries_def collectGeometries_def distinct_map_filter)

text \<open>
  C4. For every list of objects and every instancing mode, the table has one entry per
  key and the display names of its entries are pairwise distinct.
\<close>

theorem duplicate_names_distinct:
  "distinct (map fst (duplicateGeometries iv opts objs)) \<and>
   distinct (map (dup_name \<circ> snd) (duplicateGeometries iv opts objs))"
  by (rule table_distinct)

text \<open>
  C3. For the mesh \<open>M\<close> with geometry \<open>G1\<close> and no material, the key computed on line 48
  is \<open>G1undefined\<close>, not \<open>G1\<close>: it is the key of the entry the table gets for it.
\<close>

theorem key_without_material:
  "geometryKey ''G1'' (Mesh ''M'' ''G1'' None) = ''G1undefined'' \<and>
   geometryKey ''G1'' (Mesh ''M'' ''G1'' None) \<noteq> ''G1'' @ [] \<and>
   map fst (collectGeometries isVarName0 [Mesh ''M'' ''G1'' None]) = [''G1undefined'']"
  by code_simp

section \<open>The angle formatter\<close>























section \<open>Bones\<close>

lemma print_bone:
  assumes "\<not> opt_bones (ctx_options ctx)" "getType (st i) = ''bone''" "\<not> removed (st i)"
  shows "print ctx (Node i cs) st = Inr (bonePrimitive ctx (st i), st)"
  using assms by simp



section \<open>Instancing\<close>
















section \<open>Runs of \<open>parse\<close> on the sample scenes\<close>


text \<open>
  C1. The scene holds the group \<open>A\<close> with rotation \<open>(-\<pi>/2, 0, 0)\<close>, whose only child is the
  group \<open>B\<close> with rotation \<open>(\<pi>/2, 0, 0)\<close>, whose children are the bones \<open>b1\<close> and \<open>b2\<close>;
  no object carries another attribute. Under the default options the document still
  wraps the two bones in the element of \<open>B\<close> with its rotation.
\<close>

theorem rotation_pair_keeps_wrapper:
  "parse isVarName0 world0 (wrapScene rotScene rotObjects) ''model'' defaultOptions
   = Inr (plainDocument
            (''<TresGroup '' @ attr '':rotation'' ''[Math.PI / 2, 0, 0]'' @ ''>'' @ nl
             @ ''<TresPrimitive '' @ attr '':object'' ''nodes.b1'' @ ''/>''
             @ ''<TresPrimitive '' @ attr '':object'' ''nodes.b2'' @ ''/>''
             @ ''</TresGroup>''))"
  by code_simp

text \<open>
  C2. The group \<open>G\<close> at position \<open>(1, 2, 3)\<close> has the point light \<open>L\<close> as its only child;
  \<open>G\<close> carries no attribute but its position and \<open>L\<close> carries none of position, rotation
  and scale. Compiling \<open>G\<close> returns the markup of \<open>L\<close> alone and marks \<open>G\<close> removed (the
  pass-through rule), yet the position of \<open>L\<close> is still the origin and its markup has
  no position; so has the document of the whole run.
\<close>

theorem pass_through_loses_transform:
  "map_sum id (\<lambda>(s, st). (s, removed (st 1), position (st 1), position (st 2)))
     (print (plainClosure defaultOptions) (Node 1 [Node 2 []]) lightObjects)
   = Inr (''<TresPointLight '' @ attr '':intensity'' ''1'' @ attr '':decay'' ''2'' @ ''/>'' @ nl,
          True, vec 1 2 3, vec 0 0 0)
   \<and> parse isVarName0 world0 (wrapScene lightScene lightObjects) ''model'' defaultOptions
       = Inr (plainDocument
                (''<TresPointLight '' @ attr '':intensity'' ''1'' @ attr '':decay'' ''2'' @ ''/>'' @ nl))"
  by code_simp





section \<open>The output of \<open>parse\<close>\<close>





section \<open>The compile recursion marks groups and scenes only\<close>

lemma getType_removed [simp]: "getType (obj\<lparr>removed := b\<rparr>) = getType obj"
  by (simp add: getType_def)

lemma getType_rotation [simp]: "getType (obj\<lparr>rotation := v\<rparr>) = getType obj"
  by (simp add: getType_def)

lemma getType_copyProp [simp]: "getType (copyProp obj first k) = getType first"
  by (simp add: copyProp_def getType_def)

lemma removed_copyProp [simp]: "removed (copyProp obj first k) = removed first"
  by (simp add: copyProp_def)

lemma type_copy:
  "getType (foldl (\<lambda>s k. s(f := copyProp (s i) (s f) k)) st ks j) = getType (st j)"
  by (induction ks arbitrary: st) simp_all

lemma removed_copy:
  "removed (foldl (\<lambda>s k. s(f := copyProp (s i) (s f) k)) st ks j) = removed (st j)"
  by (induction ks arbitrary: st) simp_all

lemma prunable_group: "prunable ctx obj \<Longrightarrow> getType obj = ''group'' \<or> getType obj = ''scene''"
  by (auto simp: prunable_def)

text \<open>One step of \<open>print\<close> and of \<open>prune\<close>, as a case distinction.\<close>

lemma print_step:
  assumes "print ctx (Node i cs) st = Inr (s, st')"
  obtains
    (hoist) "removed (st i) \<and> cs \<noteq> []" "printAll ctx cs st = Inr (s, st')"
  | (leaf) "st' = st"
  | (element) inner st1 tag ty props r where
      "\<not> (removed (st i) \<and> cs \<noteq> [])"
      "\<not> (\<not> opt_bones (ctx_options ctx) \<and> getType (st i) = ''bone'')"
      "\<not> isLightWithTarget (st i) cs"
      "printAll ctx cs st = Inr (inner, st1)"
      "openTag ctx (st1 i) = Inr (tag, ty)"
      "handleProps ctx (st1 i) = Inr props"
      "prune ctx (Node i cs) inner ((tag @ nameAttr ctx (st1 i)) @ props) (tag @ nameAttr ctx (st1 i)) st1
         = Inr (r, st')"
proof (cases "removed (st i) \<and> cs \<noteq> []")
  case True
  with assms hoist show ?thesis by simp
next
  case nh: False
  show ?thesis
  proof (cases "\<not> opt_bones (ctx_options ctx) \<and> getType (st i) = ''bone''")
    case True
    with assms nh leaf show ?thesis by simp
  next
    case nb: False
    show ?thesis
    proof (cases "isLightWithTarget (st i) cs")
      case True
      with assms nh nb leaf show ?thesis by (simp split: sum.splits)
    next
      case nlt: False
      from assms nh nb nlt obtain inner st1 where pa: "printAll ctx cs st = Inr (inner, st1)"
        by (simp split: sum.splits prod.splits)
      from assms nh nb nlt pa obtain tag ty where ot: "openTag ctx (st1 i) = Inr (tag, ty)"
        by (simp split: sum.splits prod.splits)
      from assms nh nb nlt pa ot obtain props where hp: "handleProps ctx (st1 i) = Inr props"
        by (simp split: sum.splits)
      from assms nh nb nlt pa ot hp obtain r where
        "prune ctx (Node i cs) inner ((tag @ nameAttr ctx (st1 i)) @ props) (tag @ nameAttr ctx (st1 i)) st1
           = Inr (r, st')"
        by (simp add: Let_def split: sum.splits prod.splits option.splits)
      with nh nb nlt pa ot hp element show ?thesis by blast
    qed
  qed
qed

lemma if_chain:
  assumes "(if B then x else if C then y else if D then z else w) = v"
  obtains "B" "x = v" | "\<not> B" "C" "y = v" | "\<not> B" "\<not> C" "D" "z = v" | "w = v"
  using assms by (auto split: if_splits)

lemma prune_step:
  assumes "prune ctx (Node i (Node f gcs # rest)) inner result oldResult st = Inr (r, st')"
  obtains
    (same) "st' = st"
  | (mark) "prunable ctx (st i)" "st' = st(i := (st i)\<lparr>removed := True\<rparr>)"
  | (ruleB) firstProps st2 where
      "prunable ctx (st i)" "result \<noteq> oldResult" "handleProps ctx (st f) = Inr firstProps"
      "rotationPair (st i) (st f) rest \<and> doubleNegative (keysOf result) (keysOf firstProps)"
      "st2 = (st(f := (st f)\<lparr>removed := True\<rparr>))
                (i := ((st(f := (st f)\<lparr>removed := True\<rparr>)) i)\<lparr>removed := True\<rparr>)"
      "\<exists>s. printAll ctx gcs st2 = Inr (s, st')"
  | (ruleC) firstProps st2 where
      "prunable ctx (st i)" "result \<noteq> oldResult" "handleProps ctx (st f) = Inr firstProps"
      "\<not> (rotationPair (st i) (st f) rest \<and> doubleNegative (keysOf result) (keysOf firstProps))"
      "rotationPair (st i) (st f) rest \<and> doubleNegativeProps (keysOf result) (keysOf firstProps)"
      "st2 = (st(i := (st i)\<lparr>removed := True\<rparr>))
                (f := ((st(i := (st i)\<lparr>removed := True\<rparr>)) f)\<lparr>rotation := vec 0 0 0\<rparr>)"
      "\<exists>s. print ctx (Node f gcs) st2 = Inr (s, st')"
  | (ruleD) firstProps st1 st2 where
      "prunable ctx (st i)" "result \<noteq> oldResult" "handleProps ctx (st f) = Inr firstProps"
      "\<not> (rotationPair (st i) (st f) rest \<and> doubleNegative (keysOf result) (keysOf firstProps))"
      "\<not> (rotationPair (st i) (st f) rest \<and> doubleNegativeProps (keysOf result) (keysOf firstProps))"
      "rest = [] \<and> \<not> removed (st f) \<and> \<not> isChildTransformed (keysOf firstProps)
         \<and> \<not> hasOtherProps (keysOf result)"
      "st1 = foldl (\<lambda>s k. s(f := copyProp (s i) (s f) k)) st (keysOf result)"
      "\<exists>s. print ctx (Node f gcs) st1 = Inr (s, st2)"
      "st' = st2(i := (st2 i)\<lparr>removed := True\<rparr>)"
proof (cases "prunable ctx (st i)")
  case False
  with assms have "st' = st" by (simp del: print.simps)
  with same show ?thesis by blast
next
  case p: True
  show ?thesis
  proof (cases "result = oldResult")
    case True
    with assms p have "st' = st(i := (st i)\<lparr>removed := True\<rparr>)" by (simp del: print.simps)
    with p mark show ?thesis by blast
  next
    case ne: False
    from assms p ne obtain firstProps where fp: "handleProps ctx (st f) = Inr firstProps"
      by (simp del: print.simps split: sum.splits)
    let ?k1 = "keysOf result" and ?k2 = "keysOf firstProps"
    let ?B = "rotationPair (st i) (st f) rest \<and> doubleNegative ?k1 ?k2"
    let ?C = "rotationPair (st i) (st f) rest \<and> doubleNegativeProps ?k1 ?k2"
    let ?D = "rest = [] \<and> \<not> removed (st f) \<and> \<not> isChildTransformed ?k2 \<and> \<not> hasOtherProps ?k1"
    let ?stB = "(st(f := (st f)\<lparr>removed := True\<rparr>))
                  (i := ((st(f := (st f)\<lparr>removed := True\<rparr>)) i)\<lparr>removed := True\<rparr>)"
    let ?stC = "(st(i := (st i)\<lparr>removed := True\<rparr>))
                  (f := ((st(i := (st i)\<lparr>removed := True\<rparr>)) f)\<lparr>rotation := vec 0 0 0\<rparr>)"
    let ?stD = "foldl (\<lambda>s k. s(f := copyProp (s i) (s f) k)) st ?k1"
    let ?x = "case printAll ctx gcs ?stB of Inl e \<Rightarrow> Inl e | Inr (s, st3) \<Rightarrow> Inr (Some s, st3)"
    let ?y = "case print ctx (Node f gcs) ?stC of Inl e \<Rightarrow> Inl e | Inr (s, st3) \<Rightarrow> Inr (Some s, st3)"
    let ?z = "case print ctx (Node f gcs) ?stD of
                Inl e \<Rightarrow> Inl e
              | Inr (s, st2) \<Rightarrow> Inr (Some s, st2(i := (st2 i)\<lparr>removed := True\<rparr>))"
    let ?w = "if lackOfContent st (Node i (Node f gcs # rest)) then Inr (Some [], st) else Inr (None, st)"
    have eq: "prune ctx (Node i (Node f gcs # rest)) inner result oldResult st
              = (if ?B then ?x else if ?C then ?y else if ?D then ?z else ?w)"
      by (simp only: prune.simps Let_def p ne fp if_False if_True not_True_eq_False sum.case simp_thms)
    with assms have chain: "(if ?B then ?x else if ?C then ?y else if ?D then ?z else ?w) = Inr (r, st')"
      by (simp only:)
    from chain show ?thesis
    proof (rule if_chain)
      assume B: ?B and "?x = Inr (r, st')"
      then have "\<exists>s. printAll ctx gcs ?stB = Inr (s, st')"
        by (auto simp del: fun_upd_apply split: sum.splits)
      with p ne fp B ruleB [of firstProps ?stB] show ?thesis by blast
    next
      assume nB: "\<not> ?B" and C: ?C and "?y = Inr (r, st')"
      then have "\<exists>s. print ctx (Node f gcs) ?stC = Inr (s, st')"
        by (auto simp del: print.simps fun_upd_apply split: sum.splits)
      with p ne fp nB C ruleC [of firstProps ?stC] show ?thesis by blast
    next
      assume nB: "\<not> ?B" and nC: "\<not> ?C" and D: ?D and "?z = Inr (r, st')"
      then obtain s st2 where
        "print ctx (Node f gcs) ?stD = Inr (s, st2)" "st' = st2(i := (st2 i)\<lparr>removed := True\<rparr>)"
        by (auto simp del: print.simps fun_upd_apply split: sum.splits)
      with p ne fp nB nC D ruleD [of firstProps ?stD st2] show ?thesis by blast
    next
      assume "?w = Inr (r, st')"
      then have "st' = st" by (auto split: if_splits)
      with same show ?thesis by blast
    qed
  qed
qed

lemma keepsTypes_refl: "keepsTypes st st"
  by (simp add: keepsTypes_def)

lemma keepsTypes_trans: "keepsTypes st st1 \<Longrightarrow> keepsTypes st1 st2 \<Longrightarrow> keepsTypes st st2"
  by (simp add: keepsTypes_def)

lemma keepsTypes_mark:
  "getType (st i) = ''group'' \<or> getType (st i) = ''scene'' \<Longrightarrow>
   keepsTypes st (st(i := (st i)\<lparr>removed := True\<rparr>))"
  by (simp add: keepsTypes_def marksOnlyGroups_def)

lemma keepsTypes_rotation: "keepsTypes st (st(f := (st f)\<lparr>rotation := v\<rparr>))"
  by (simp add: keepsTypes_def marksOnlyGroups_def)

lemma keepsTypes_copy: "keepsTypes st (foldl (\<lambda>s k. s(f := copyProp (s i) (s f) k)) st ks)"
  by (simp add: keepsTypes_def marksOnlyGroups_def type_copy removed_copy)

lemma keepsTypes_type: "keepsTypes st st' \<Longrightarrow> getType (st' j) = getType (st j)"
  by (simp add: keepsTypes_def)

lemma compile_keeps_types:
  "\<forall>s st'. print ctx t st = Inr (s, st') \<longrightarrow> keepsTypes st st'"
  "\<forall>s st'. printAll ctx ts st = Inr (s, st') \<longrightarrow> keepsTypes st st'"
  "\<forall>r st'. prune ctx t inner result oldResult st = Inr (r, st') \<longrightarrow> keepsTypes st st'"
proof (induction ctx t st and ctx ts st and ctx t inner result oldResult st
       rule: print_printAll_prune.induct)
  case (1 ctx i cs st)
  show ?case
  proof (intro allI impI)
    fix s st' assume run: "print ctx (Node i cs) st = Inr (s, st')"
    from run show "keepsTypes st st'"
    proof (cases rule: print_step)
      case hoist
      with "1.IH"(1) show ?thesis by blast
    next
      case leaf
      then show ?thesis by (simp add: keepsTypes_refl)
    next
      case (element inner st1 tag ty props r)
      from "1.IH"(2) [OF element(1,2,3)] element(4) have a: "keepsTypes st st1" by blast
      from "1.IH"(3) [OF element(1,2,3,4) refl element(5) refl element(6) refl refl] element(7)
      have "keepsTypes st1 st'" by blast
      with a show ?thesis by (rule keepsTypes_trans)
    qed
  qed
next
  case (2 ctx st)
  show ?case by (simp add: keepsTypes_refl)
next
  case (3 ctx c cs st)
  show ?case
  proof (intro allI impI)
    fix s st' assume run: "printAll ctx (c # cs) st = Inr (s, st')"
    then obtain s1 st1 s2 where p1: "print ctx c st = Inr (s1, st1)"
      and p2: "printAll ctx cs st1 = Inr (s2, st')"
      by (auto simp del: print.simps split: sum.splits)
    from "3.IH"(1) p1 have "keepsTypes st st1" by blast
    moreover from "3.IH"(2) [OF p1 refl] p2 have "keepsTypes st1 st'" by blast
    ultimately show "keepsTypes st st'" by (rule keepsTypes_trans)
  qed
next
  case (4 ctx i inner result oldResult st)
  show ?case
    by (auto simp: keepsTypes_refl intro: keepsTypes_mark dest: prunable_group)
next
  case (5 ctx i f gcs rest inner result oldResult st)
  show ?case
  proof (intro allI impI)
    fix r st'
    assume run: "prune ctx (Node i (Node f gcs # rest)) inner result oldResult st = Inr (r, st')"
    from run show "keepsTypes st st'"
    proof (cases rule: prune_step)
      case same
      then show ?thesis by (simp add: keepsTypes_refl)
    next
      case mark
      then show ?thesis by (auto intro: keepsTypes_mark dest: prunable_group)
    next
      case (ruleB firstProps st2)
      have gi: "getType (st i) = ''group'' \<or> getType (st i) = ''scene''"
        using ruleB(1) by (rule prunable_group)
      then have gf: "getType (st f) = ''group'' \<or> getType (st f) = ''scene''"
        using ruleB(4) by (simp add: rotationPair_def)
      have "keepsTypes st (st(f := (st f)\<lparr>removed := True\<rparr>))"
        using gf by (rule keepsTypes_mark)
      moreover have "keepsTypes (st(f := (st f)\<lparr>removed := True\<rparr>)) st2"
        unfolding ruleB(5) using gi gf by (intro keepsTypes_mark) simp
      ultimately have a: "keepsTypes st st2" by (rule keepsTypes_trans)
      from "5.IH"(1) [OF _ ruleB(2,3) refl refl ruleB(4) refl ruleB(5)] ruleB(1,6)
      have "keepsTypes st2 st'" by blast
      with a show ?thesis by (rule keepsTypes_trans)
    next
      case (ruleC firstProps st2)
      have gi: "getType (st i) = ''group'' \<or> getType (st i) = ''scene''"
        using ruleC(1) by (rule prunable_group)
      have "keepsTypes st (st(i := (st i)\<lparr>removed := True\<rparr>))"
        using gi by (rule keepsTypes_mark)
      moreover have "keepsTypes (st(i := (st i)\<lparr>removed := True\<rparr>)) st2"
        unfolding ruleC(6) by (rule keepsTypes_rotation)
      ultimately have a: "keepsTypes st st2" by (rule keepsTypes_trans)
      from "5.IH"(2) [OF _ ruleC(2,3) refl refl ruleC(4,5) refl ruleC(6)] ruleC(1,7)
      have "keepsTypes st2 st'" by blast
      with a show ?thesis by (rule keepsTypes_trans)
    next
      case (ruleD firstProps st1 st2)
      have gi: "getType (st i) = ''group'' \<or> getType (st i) = ''scene''"
        using ruleD(1) by (rule prunable_group)
      have a: "keepsTypes st st1"
        unfolding ruleD(7) by (rule keepsTypes_copy)
      from "5.IH"(3) [OF _ ruleD(2,3) refl refl ruleD(4,5,6,7)] ruleD(1,8)
      have b: "keepsTypes st1 st2" by blast
      from a b have ab: "keepsTypes st st2" by (rule keepsTypes_trans)
      then have "getType (st2 i) = getType (st i)" by (rule keepsTypes_type)
      with gi have "keepsTypes st2 st'"
        unfolding ruleD(9) by (intro keepsTypes_mark) simp
      with ab show ?thesis by (rule keepsTypes_trans)
    qed
  qed
qed

text \<open>The compile recursion never marks a bone: from a store whose marks are on
  groups and scenes, such as a fresh graph without any mark, it leads to a store whose
  marks are on groups and scenes.\<close>

lemma print_marks_only_groups:
  assumes "print ctx t st = Inr (s, st')" and "marksOnlyGroups st"
  shows "marksOnlyGroups st'"
  using compile_keeps_types(1) [of ctx t st] assms by (simp add: keepsTypes_def)

lemma fresh_marksOnlyGroups: "(\<forall>j. \<not> removed (st j)) \<Longrightarrow> marksOnlyGroups st"
  by (simp add: marksOnlyGroups_def)

lemma bone_not_removed: "marksOnlyGroups st \<Longrightarrow> getType (st i) = ''bone'' \<Longrightarrow> \<not> removed (st i)"
  by (auto simp: marksOnlyGroups_def)

section \<open>The length test of \<open>handleProps\<close>\<close>

lemma lengthSq_nonneg: "0 \<le> lengthSq v"
  by (simp add: lengthSq_def)

lemma half_le_sqrt:
  fixes s :: real and d :: nat
  assumes "0 \<le> s"
  shows "1 / 2 \<le> sqrt s * 10 ^ d \<longleftrightarrow> 1 \<le> 4 * s * 100 ^ d"
proof -
  have "1 / 2 \<le> sqrt s * 10 ^ d \<longleftrightarrow> sqrt ((1 / 2)\<^sup>2) \<le> sqrt (s * (10 ^ d)\<^sup>2)"
    by (simp add: real_sqrt_mult)
  also have "\<dots> \<longleftrightarrow> (1 / 2)\<^sup>2 \<le> s * (10 ^ d)\<^sup>2"
    by (rule real_sqrt_le_iff)
  also have "\<dots> \<longleftrightarrow> 1 \<le> 4 * s * 100 ^ d"
    by (simp add: power2_eq_square field_simps flip: power_mult_distrib)
  finally show ?thesis .
qed

text \<open>The rounded length of a vector is non-zero exactly when \<open>roundedLengthNonzero\<close>
  says so: the integer that \<open>toFixed\<close> picks for the length, \<open>\<lfloor>length * 10^d + 1/2\<rfloor>\<close>, is
  not zero.\<close>

lemma roundedLengthNonzero_sqrt:
  "roundedLengthNonzero opts v \<longleftrightarrow>
     floor (sqrt (of_rat (lengthSq v)) * 10 ^ nat (precisionOf opts) + 1 / 2) \<noteq> (0::int)"
proof -
  let ?s = "of_rat (lengthSq v) :: real" and ?d = "nat (precisionOf opts)"
  have s: "0 \<le> ?s" using lengthSq_nonneg [of v] by (simp add: zero_le_of_rat_iff)
  have nonneg: "0 \<le> sqrt ?s * 10 ^ ?d" using s by simp
  have "floor (sqrt ?s * 10 ^ ?d + 1 / 2) \<noteq> (0::int) \<longleftrightarrow> 1 / 2 \<le> sqrt ?s * 10 ^ ?d"
    using nonneg by (simp add: floor_eq_iff) linarith
  also have "\<dots> \<longleftrightarrow> 1 \<le> 4 * ?s * 100 ^ ?d"
    by (rule half_le_sqrt [OF s])
  also have "\<dots> \<longleftrightarrow> (1::real) \<le> of_rat (4 * lengthSq v * 100 ^ ?d)"
    by (simp add: of_rat_mult of_rat_power)
  also have "\<dots> \<longleftrightarrow> 1 \<le> 4 * lengthSq v * 100 ^ ?d"
    by (metis of_rat_1 of_rat_less_eq)
  finally show ?thesis by (simp add: roundedLengthNonzero_def)
qed

end
